theory Spec2Isabelle
  imports Complex_Main
begin

section \<open>Tensors\<close>

text \<open>
  A tensor of \<^verbatim>\<open>train.py\<close> is modelled by its shape and its elements in row-major order.
  Elements are real numbers: the development is about the arithmetic the code writes down,
  so float32 rounding error, infinities and NaN are outside the model.
\<close>

record tensor =
  shape :: "nat list"
  data :: "real list"

definition wf_tensor :: "tensor \<Rightarrow> bool" where
  "wf_tensor t = (length (data t) = prod_list (shape t))"

text \<open>
  The exceptions the modelled code can raise: \<^verbatim>\<open>IndexError\<close> (a dimension that does not
  exist), \<^verbatim>\<open>RuntimeError\<close> (torch's shape errors) and \<^verbatim>\<open>ValueError\<close> (Python's
  \<^verbatim>\<open>int(s, 2)\<close> on a malformed string).
\<close>

datatype error = IndexError | RuntimeError | ValueError

text \<open>An elementwise operation of one tensor (and Python scalars) keeps the shape.\<close>

definition tmap :: "(real \<Rightarrow> real) \<Rightarrow> tensor \<Rightarrow> tensor" where
  "tmap f t = \<lparr>shape = shape t, data = map f (data t)\<rparr>"

text \<open>\<^verbatim>\<open>torch.zeros(*sizes)\<close>.\<close>

definition zeros :: "nat list \<Rightarrow> tensor" where
  "zeros s = \<lparr>shape = s, data = replicate (prod_list s) 0\<rparr>"


section \<open>Fixed-point quantizer\<close>

text \<open>\<^verbatim>\<open>torch.round\<close> rounds to the nearest integer, a tie to the even neighbour.\<close>

definition torch_round :: "real \<Rightarrow> real" where
  "torch_round x =
     (let f = \<lfloor>x\<rfloor>; d = x - of_int f
      in if d < 1 / 2 then of_int f
         else if 1 / 2 < d then of_int (f + 1)
         else if even f then of_int f else of_int (f + 1))"

text \<open>\<^verbatim>\<open>torch.clip(x, min, max)\<close> is \<^verbatim>\<open>min(max(x, min), max)\<close>.\<close>

definition torch_clip :: "real \<Rightarrow> real \<Rightarrow> real \<Rightarrow> real" where
  "torch_clip x lo hi = min (max x lo) hi"

text \<open>
  \<^verbatim>\<open>Quantize(tensor, n_bit)\<close>, lines 134-136, on one element and on a tensor. \<^verbatim>\<open>n_bit\<close> is a
  Python integer; \<^verbatim>\<open>2 ** (n_bit - 2)\<close> with a negative exponent is the float
  \<open>2 powi (n_bit - 2)\<close>. The definition is the code's while that scale is a float32 number
  other than zero, as at the widths 8 and 16 of this development: beyond that range the
  code's scale is zero or infinite (and its result NaN) or \<^verbatim>\<open>float\<close> raises
  \<^verbatim>\<open>OverflowError\<close>, which the definition does not follow.
\<close>

definition Quantize_elem :: "real \<Rightarrow> int \<Rightarrow> real" where
  "Quantize_elem v n_bit =
     (let n = 2 powi (n_bit - 2)
      in torch_clip (torch_round (v * n) / n) (- 1.99993896484375) 1.99993896484375)"

definition Quantize :: "tensor \<Rightarrow> int \<Rightarrow> tensor" where
  "Quantize t n_bit = tmap (\<lambda>v. Quantize_elem v n_bit) t"

definition Binarize :: "tensor \<Rightarrow> tensor" where
  "Binarize t = Quantize t 16"

text \<open>
  The quantizer as the specification words it: scale \<open>2^(n_bits-2)\<close> and the clip bound
  \<open>L = 2^(n_bits-2) - 2^-(n_bits-2)\<close>.
\<close>

definition quantize_spec :: "real \<Rightarrow> int \<Rightarrow> real" where
  "quantize_spec v n_bits =
     (let s = 2 powi (n_bits - 2); L = 2 powi (n_bits - 2) - 2 powi (- (n_bits - 2))
      in torch_clip (torch_round (v * s) / s) (- L) L)"


section \<open>Surrogate gradient estimator\<close>

text \<open>The module constants of lines 75-78.\<close>

definition lens :: real where
  "lens = 0.5"

definition thresh :: real where
  "thresh = 0.875"

definition decay :: real where
  "decay = 0.5"

definition gamma :: real where
  "gamma = 0.5"

text \<open>\<^verbatim>\<open>gaussian(x, mu, sigma)\<close>, lines 81-82, on one element.\<close>

definition gaussian :: "real \<Rightarrow> real \<Rightarrow> real \<Rightarrow> real" where
  "gaussian x mu sigma = exp (- ((x - mu) ^ 2) / (2 * sigma ^ 2)) / sqrt (2 * pi) / sigma"

text \<open>\<^verbatim>\<open>F.relu\<close>.\<close>

definition relu :: "real \<Rightarrow> real" where
  "relu x = max 0 x"

text \<open>
  The product of two tensors. Every product and sum of two tensors in the modelled code is
  between tensors of one shape, and that is the case covered: two different shapes are
  reported as a \<^verbatim>\<open>RuntimeError\<close>, where torch would first try to broadcast them.
\<close>

definition tmul :: "tensor \<Rightarrow> tensor \<Rightarrow> error + tensor" where
  "tmul a b =
     (if shape a = shape b
      then Inr \<lparr>shape = shape a, data = map2 (\<lambda>x y. x * y) (data a) (data b)\<rparr>
      else Inl RuntimeError)"

definition tadd :: "tensor \<Rightarrow> tensor \<Rightarrow> error + tensor" where
  "tadd a b =
     (if shape a = shape b
      then Inr \<lparr>shape = shape a, data = map2 (\<lambda>x y. x + y) (data a) (data b)\<rparr>
      else Inl RuntimeError)"

text \<open>
  \<^verbatim>\<open>AcFun_adp.forward\<close>, lines 86-89: the saved tensor and the output
  \<^verbatim>\<open>input.gt(0).float()\<close>. \<^verbatim>\<open>act_fun_adp\<close> (line 115) is the output alone.
\<close>

definition AcFun_adp_forward :: "tensor \<Rightarrow> tensor \<times> tensor" where
  "AcFun_adp_forward input = (input, tmap (\<lambda>v. if 0 < v then 1 else 0) input)"

definition act_fun_adp :: "tensor \<Rightarrow> tensor" where
  "act_fun_adp input = snd (AcFun_adp_forward input)"

text \<open>
  \<^verbatim>\<open>AcFun_adp.backward\<close>, lines 91-112. \<open>temp\<close> is the value of the local \<^verbatim>\<open>temp\<close> at one
  element of the saved input, under the module global \<^verbatim>\<open>surroguate_type\<close>; every operation
  on the way is elementwise on that one tensor.
\<close>

definition temp :: "string \<Rightarrow> real \<Rightarrow> real" where
  "temp surroguate_type input =
     (let scale = 6.0; height = 0.15
      in if surroguate_type = ''G''
         then exp (- (input ^ 2) / (2 * lens ^ 2)) / sqrt (2 * pi) / lens
         else if surroguate_type = ''MG''
         then gaussian input 0 lens * (1.0 + height)
              - gaussian input lens (scale * lens) * height
              - gaussian input (- lens) (scale * lens) * height
         else if surroguate_type = ''linear''
         then relu (1 - \<bar>input\<bar>)
         else if surroguate_type = ''slayer''
         then exp (- 5 * \<bar>input\<bar>)
         else if surroguate_type = ''sigmoid''
         then exp (- input) / (1 + exp (- input)) ^ 2
         else exp (- \<bar>input\<bar>))"

definition AcFun_adp_backward :: "string \<Rightarrow> tensor \<Rightarrow> tensor \<Rightarrow> error + tensor" where
  "AcFun_adp_backward surroguate_type input grad_output =
     (let grad_input = grad_output
      in case tmul grad_input (tmap (temp surroguate_type) input) of
           Inl e \<Rightarrow> Inl e
         | Inr p \<Rightarrow> Inr (tmap (\<lambda>v. v * gamma) p))"

text \<open>
  The kernels as the specification words them. The density of the normal distribution of
  mean \<open>mu\<close> and standard deviation \<open>sigma\<close>:
\<close>

definition normal_density :: "real \<Rightarrow> real \<Rightarrow> real \<Rightarrow> real" where
  "normal_density mu sigma x = 1 / (sigma * sqrt (2 * pi)) * exp (- ((x - mu) ^ 2) / (2 * sigma ^ 2))"

definition kernel_spec :: "string \<Rightarrow> real \<Rightarrow> real" where
  "kernel_spec mode x =
     (if mode = ''G'' then normal_density 0 (1 / 2) x
      else if mode = ''MG''
      then normal_density 0 (1 / 2) x * (1 + 0.15)
           - normal_density (1 / 2) (6 * (1 / 2)) x * 0.15
           - normal_density (- (1 / 2)) (6 * (1 / 2)) x * 0.15
      else if mode = ''linear'' then max 0 (1 - \<bar>x\<bar>)
      else if mode = ''slayer'' then exp (- (5 * \<bar>x\<bar>))
      else if mode = ''sigmoid'' then exp (- x) / (1 + exp (- x)) ^ 2
      else exp (- \<bar>x\<bar>))"


section \<open>LIF membrane update\<close>

text \<open>
  \<^verbatim>\<open>LIF_mem_update(inputs, mem, spike)\<close>, lines 118-128, statement by statement, in exact
  arithmetic: what the update computes whenever no operation of it rounds, as in the
  encoding pass, which starts from zero membrane and zero spikes. The update in the
  arithmetic of the tensors themselves is \<open>LIF_mem_update_in\<close> below.
\<close>

definition LIF_mem_update :: "tensor \<Rightarrow> tensor \<Rightarrow> tensor \<Rightarrow> error + tensor \<times> tensor" where
  "LIF_mem_update inputs mem spike =
     (let n = 2 ^ 14
      in case tmul (tmap (\<lambda>v. v * decay) mem) (tmap (\<lambda>s. 1 - s) spike) of
           Inl e \<Rightarrow> Inl e
         | Inr mem1 \<Rightarrow>
             (let mem2 = tmap (\<lambda>v. torch_clip (torch_round (v * n) / n)
                                  (- 14.99993896484375) 14.99993896484375) mem1
              in case tadd mem2 inputs of
                   Inl e \<Rightarrow> Inl e
                 | Inr mem3 \<Rightarrow>
                     (let mem4 = tmap (\<lambda>v. torch_clip (torch_round (v * n) / n)
                                          (- 14.99993896484375) 14.99993896484375) mem3;
                          temp_mem = tmap (\<lambda>v. v - thresh) mem4;
                          spike' = act_fun_adp temp_mem
                      in Inr (mem4, spike'))))"

text \<open>One update on one neuron in exact arithmetic, after the five steps of the specification.\<close>

definition lif_mem_spec :: "real \<Rightarrow> real \<Rightarrow> real \<Rightarrow> real" where
  "lif_mem_spec inp mem spike =
     (let mem1 = mem * 0.5 * (1 - spike);
          mem2 = torch_clip (torch_round (mem1 * 2 ^ 14) / 2 ^ 14)
                   (- 14.99993896484375) 14.99993896484375;
          mem3 = mem2 + inp
      in torch_clip (torch_round (mem3 * 2 ^ 14) / 2 ^ 14)
           (- 14.99993896484375) 14.99993896484375)"

definition lif_spike_spec :: "real \<Rightarrow> real" where
  "lif_spike_spec mem' = (if mem' - 0.875 > 0 then 1.0 else 0.0)"


section \<open>LIF membrane update in the arithmetic of the tensors\<close>

text \<open>
  The tensors of one update have one dtype (float32 in this program), and every operation
  of the update is torch's operation of that dtype: it rounds, overflows to an infinity
  and propagates NaN as the dtype says. The update is therefore modelled over any type
  \<open>'a\<close> of elements, with the operations it uses as a parameter: the conversion of a Python
  float literal, product, quotient, sum, difference, \<^verbatim>\<open>torch.round\<close>, \<^verbatim>\<open>torch.clip\<close> between
  two Python floats, and the test \<^verbatim>\<open>.gt(0)\<close>.
\<close>

record 'a arith =
  a_lit :: "real \<Rightarrow> 'a"
  a_mul :: "'a \<Rightarrow> 'a \<Rightarrow> 'a"
  a_div :: "'a \<Rightarrow> 'a \<Rightarrow> 'a"
  a_add :: "'a \<Rightarrow> 'a \<Rightarrow> 'a"
  a_sub :: "'a \<Rightarrow> 'a \<Rightarrow> 'a"
  a_round :: "'a \<Rightarrow> 'a"
  a_clip :: "'a \<Rightarrow> real \<Rightarrow> real \<Rightarrow> 'a"
  a_gt0 :: "'a \<Rightarrow> bool"

text \<open>A tensor with elements of type \<open>'a\<close>: its shape and its elements in row-major order.\<close>

record 'a tensor_of =
  shape_of :: "nat list"
  data_of :: "'a list"


definition emap :: "('a \<Rightarrow> 'a) \<Rightarrow> 'a tensor_of \<Rightarrow> 'a tensor_of" where
  "emap f t = \<lparr>shape_of = shape_of t, data_of = map f (data_of t)\<rparr>"

text \<open>
  An operation of two tensors, element by element. As for \<open>tmul\<close> and \<open>tadd\<close>, tensors of
  one shape are the case covered; two different shapes are reported as a
  \<^verbatim>\<open>RuntimeError\<close>, where torch would first try to broadcast them.
\<close>

definition emap2 ::
    "('a \<Rightarrow> 'a \<Rightarrow> 'a) \<Rightarrow> 'a tensor_of \<Rightarrow> 'a tensor_of \<Rightarrow> error + 'a tensor_of" where
  "emap2 f a b =
     (if shape_of a = shape_of b
      then Inr \<lparr>shape_of = shape_of a, data_of = map2 f (data_of a) (data_of b)\<rparr>
      else Inl RuntimeError)"

text \<open>\<^verbatim>\<open>act_fun_adp\<close>, the forward pass of lines 86-89: \<^verbatim>\<open>input.gt(0).float()\<close>.\<close>

definition act_fun_adp_in :: "'a arith \<Rightarrow> 'a tensor_of \<Rightarrow> 'a tensor_of" where
  "act_fun_adp_in A input = emap (\<lambda>v. if a_gt0 A v then a_lit A 1 else a_lit A 0) input"

text \<open>\<^verbatim>\<open>LIF_mem_update(inputs, mem, spike)\<close>, lines 118-128, statement by statement.\<close>

definition LIF_mem_update_in ::
    "'a arith \<Rightarrow> 'a tensor_of \<Rightarrow> 'a tensor_of \<Rightarrow> 'a tensor_of
       \<Rightarrow> error + 'a tensor_of \<times> 'a tensor_of" where
  "LIF_mem_update_in A inputs mem spike =
     (let n = a_lit A (2 ^ 14)
      in case emap2 (a_mul A) (emap (\<lambda>v. a_mul A v (a_lit A decay)) mem)
                (emap (\<lambda>s. a_sub A (a_lit A 1) s) spike) of
           Inl e \<Rightarrow> Inl e
         | Inr mem1 \<Rightarrow>
             (let mem2 = emap (\<lambda>v. a_clip A (a_div A (a_round A (a_mul A v n)) n)
                                  (- 14.99993896484375) 14.99993896484375) mem1
              in case emap2 (a_add A) mem2 inputs of
                   Inl e \<Rightarrow> Inl e
                 | Inr mem3 \<Rightarrow>
                     (let mem4 = emap (\<lambda>v. a_clip A (a_div A (a_round A (a_mul A v n)) n)
                                          (- 14.99993896484375) 14.99993896484375) mem3;
                          temp_mem = emap (\<lambda>v. a_sub A v (a_lit A thresh)) mem4;
                          spike' = act_fun_adp_in A temp_mem
                      in Inr (mem4, spike'))))"



text \<open>
  Exact arithmetic, the arithmetic of \<open>LIF_mem_update\<close>: the operations of the real numbers
  with \<open>torch_round\<close> and \<open>torch_clip\<close>. A float32 operation gives the same result whenever
  that result is a float32 number.
\<close>

definition exact_arith :: "real arith" where
  "exact_arith =
     \<lparr>a_lit = (\<lambda>c. c), a_mul = (\<lambda>x y. x * y), a_div = (\<lambda>x y. x / y),
      a_add = (\<lambda>x y. x + y), a_sub = (\<lambda>x y. x - y), a_round = torch_round,
      a_clip = torch_clip, a_gt0 = (\<lambda>v. 0 < v)\<rparr>"

definition as_tensor_of :: "tensor \<Rightarrow> real tensor_of" where
  "as_tensor_of t = \<lparr>shape_of = shape t, data_of = data t\<rparr>"


section \<open>Recurrent cells: the input-encoding pass\<close>

text \<open>\<^verbatim>\<open>x.size(d)\<close> raises \<^verbatim>\<open>IndexError\<close> when the tensor has no dimension \<open>d\<close>.\<close>

definition size_dim :: "tensor \<Rightarrow> nat \<Rightarrow> error + nat" where
  "size_dim x d = (if d < length (shape x) then Inr (shape x ! d) else Inl IndexError)"

text \<open>
  The encoding statements shared by \<^verbatim>\<open>GRU.forward\<close> (lines 214-215), \<^verbatim>\<open>SGRU.forward\<close>
  (lines 250 and 253), \<^verbatim>\<open>LSGRU.forward\<close> (lines 289 and 292) and \<^verbatim>\<open>OLSGRU.forward\<close>
  (lines 318 and 321), the same text in the four:
  \<^verbatim>\<open>Encoding_mem = Encoding_spike = torch.zeros(x.size(0), x.size(1), x.size(2))\<close> and
  \<^verbatim>\<open>Encoding_mem, Encoding_spike = LIF_mem_update(x, Encoding_mem, Encoding_spike)\<close>.
\<close>

definition Encoding :: "tensor \<Rightarrow> error + tensor \<times> tensor" where
  "Encoding x =
     (case size_dim x 0 of Inl e \<Rightarrow> Inl e | Inr s0 \<Rightarrow>
      case size_dim x 1 of Inl e \<Rightarrow> Inl e | Inr s1 \<Rightarrow>
      case size_dim x 2 of Inl e \<Rightarrow> Inl e | Inr s2 \<Rightarrow>
        (let Encoding_mem = zeros [s0, s1, s2];
             Encoding_spike = Encoding_mem
         in LIF_mem_update x Encoding_mem Encoding_spike))"

text \<open>
  \<^verbatim>\<open>T[:, t, :]\<close> on a 3-dimensional tensor, the slice each loop iteration reads from
  \<^verbatim>\<open>Encoding_spike\<close> (lines 218, 256, 295): row \<open>b\<close> of the result is the \<open>F\<close> elements
  from position \<open>(b * T + t) * F\<close>. An index beyond the time axis is an \<^verbatim>\<open>IndexError\<close>;
  the slice is only modelled on 3-dimensional tensors, the only ones it is applied to.
\<close>

definition select_time :: "tensor \<Rightarrow> nat \<Rightarrow> error + tensor" where
  "select_time T t =
     (case shape T of
        [B, Tn, F] \<Rightarrow>
          if t < Tn
          then Inr \<lparr>shape = [B, F],
                    data = concat (map (\<lambda>b. take F (drop ((b * Tn + t) * F) (data T))) [0..<B])\<rparr>
          else Inl IndexError
      | _ \<Rightarrow> Inl IndexError)"

text \<open>\<^verbatim>\<open>t.squeeze(0)\<close> drops the first dimension when its size is 1.\<close>

definition squeeze0 :: "tensor \<Rightarrow> tensor" where
  "squeeze0 t =
     \<lparr>shape = (case shape t of [] \<Rightarrow> [] | d # ds \<Rightarrow> if d = 1 then ds else d # ds),
      data = data t\<rparr>"

text \<open>
  \<^verbatim>\<open>OLSGRU.forward(x, hidden_spike)\<close>, lines 312-324, with the layer's \<^verbatim>\<open>hidden_size\<close>: the
  encoded spikes are the result; the hidden state and the gate tensors are prepared and
  never read.
\<close>

definition OLSGRU_forward :: "nat \<Rightarrow> tensor \<Rightarrow> tensor option \<Rightarrow> error + tensor" where
  "OLSGRU_forward hidden_size x hidden_spike =
     (case (case hidden_spike of
              None \<Rightarrow> (case size_dim x 0 of Inl e \<Rightarrow> Inl e
                                          | Inr s0 \<Rightarrow> Inr (zeros [s0, hidden_size]))
            | Some h \<Rightarrow> Inr (squeeze0 h)) of
        Inl e \<Rightarrow> Inl e
      | Inr hidden \<Rightarrow>
          (case size_dim x 0 of Inl e \<Rightarrow> Inl e | Inr s0 \<Rightarrow>
           case size_dim x 1 of Inl e \<Rightarrow> Inl e | Inr s1 \<Rightarrow>
           case size_dim x 2 of Inl e \<Rightarrow> Inl e | Inr s2 \<Rightarrow>
             (let Encoding_mem = zeros [s0, s1, s2];
                  Encoding_spike = Encoding_mem;
                  RZgate_mem = zeros [s0, hidden_size];
                  RZgate_spike = RZgate_mem
              in case LIF_mem_update x Encoding_mem Encoding_spike of
                   Inl e \<Rightarrow> Inl e
                 | Inr (Encoding_mem', Encoding_spike') \<Rightarrow>
                     (let o_input = Encoding_spike' in Inr o_input))))"

text \<open>
  What the encoding does to one input element, as the specification words it: the
  element is put on the membrane grid and compared with the threshold.
\<close>

definition encode_mem_spec :: "real \<Rightarrow> real" where
  "encode_mem_spec v =
     torch_clip (torch_round (v * 2 ^ 14) / 2 ^ 14) (- 14.99993896484375) 14.99993896484375"

definition encode_spike_spec :: "real \<Rightarrow> real" where
  "encode_spike_spec v = (if encode_mem_spec v > 0.875 then 1.0 else 0.0)"


section \<open>Quantized linear layer\<close>

text \<open>
  A parameter of a layer: its live value \<^verbatim>\<open>.data\<close> and the attribute \<^verbatim>\<open>.org\<close>, absent
  (\<open>None\<close>) until a forward call creates it. A \<^verbatim>\<open>BinarizeLinear\<close> layer is its weight and
  its optional bias.
\<close>

record parameter =
  pdata :: tensor
  org :: "tensor option"

record BinarizeLinear =
  weight :: parameter
  bias :: "parameter option"

text \<open>
  The shadow a parameter has once a forward call has looked at it: its \<^verbatim>\<open>.org\<close> when that
  exists, a clone of its \<^verbatim>\<open>.data\<close> otherwise.
\<close>

definition shadow :: "parameter \<Rightarrow> tensor" where
  "shadow p = (case org p of None \<Rightarrow> pdata p | Some t \<Rightarrow> t)"

text \<open>Row \<open>r\<close> of a row-major matrix of row length \<open>k\<close>, and the dot product.\<close>

definition row :: "nat \<Rightarrow> real list \<Rightarrow> nat \<Rightarrow> real list" where
  "row k xs r = take k (drop (r * k) xs)"

definition dot :: "real list \<Rightarrow> real list \<Rightarrow> real" where
  "dot xs ys = sum_list (map2 (\<lambda>x y. x * y) xs ys)"

text \<open>
  \<^verbatim>\<open>nn.functional.linear(input, weight)\<close> without bias: the weight of an \<^verbatim>\<open>nn.Linear\<close> is
  2-dimensional, \<open>[out_features, in_features]\<close>, and the last dimension of the input must
  be \<open>in_features\<close>; every input row is multiplied with every weight row.
\<close>

definition F_linear :: "tensor \<Rightarrow> tensor \<Rightarrow> error + tensor" where
  "F_linear input w =
     (case shape w of
        [out_f, in_f] \<Rightarrow>
          if shape input \<noteq> [] \<and> last (shape input) = in_f
          then Inr \<lparr>shape = butlast (shape input) @ [out_f],
                    data = concat (map (\<lambda>r. map (\<lambda>j. dot (row in_f (data input) r)
                                                         (row in_f (data w) j)) [0..<out_f])
                                    [0..<prod_list (butlast (shape input))])\<rparr>
          else Inl RuntimeError
      | _ \<Rightarrow> Inl RuntimeError)"

text \<open>
  \<^verbatim>\<open>out += b.view(1, -1).expand_as(out)\<close>, line 155: the bias values as one row, expanded
  over the rows of \<open>out\<close> and added. \<^verbatim>\<open>expand_as\<close> needs \<open>out\<close> to have two dimensions or
  more, and its last dimension to be the number of bias values unless that number is 1.
\<close>

definition add_bias :: "tensor \<Rightarrow> tensor \<Rightarrow> error + tensor" where
  "add_bias out b =
     (let nb = length (data b);
          k = (if shape out = [] then 0 else last (shape out))
      in if 2 \<le> length (shape out) \<and> (nb = k \<or> nb = 1)
         then Inr \<lparr>shape = shape out,
                   data = concat (map (\<lambda>r. map2 (\<lambda>x y. x + y) (row k (data out) r)
                                         (if nb = 1 then replicate k (data b ! 0) else data b))
                                   [0..<prod_list (butlast (shape out))])\<rparr>
         else Inl RuntimeError)"

text \<open>
  \<^verbatim>\<open>BinarizeLinear.forward(input)\<close>, lines 147-156: the layer after the call and the output
  or the exception. The layer keeps the changes made before an exception.
\<close>

definition BinarizeLinear_forward ::
    "BinarizeLinear \<Rightarrow> tensor \<Rightarrow> BinarizeLinear \<times> (error + tensor)" where
  "BinarizeLinear_forward self input =
     (let w = weight self;
          w1 = (if org w = None then w\<lparr>org := Some (pdata w)\<rparr> else w);
          w2 = (case org w1 of Some w_org \<Rightarrow> w1\<lparr>pdata := Binarize w_org\<rparr> | None \<Rightarrow> w1);
          self1 = self\<lparr>weight := w2\<rparr>
      in case F_linear input (pdata w2) of
           Inl e \<Rightarrow> (self1, Inl e)
         | Inr out \<Rightarrow>
             (case bias self1 of
                None \<Rightarrow> (self1, Inr out)
              | Some b \<Rightarrow>
                  (let b1 = (if org b = None then b\<lparr>org := Some (pdata b)\<rparr> else b);
                       self2 = self1\<lparr>bias := Some b1\<rparr>
                   in (self2, add_bias out (pdata b1)))))"

text \<open>
  The output of the layer as the specification words it: the bias under the same
  discipline as the weight, so that the quantized shadow bias is added.
\<close>

definition forward_output_spec :: "BinarizeLinear \<Rightarrow> tensor \<Rightarrow> error + tensor" where
  "forward_output_spec self input =
     (let shadow_weight = shadow (weight self)
      in case F_linear input (Quantize shadow_weight 16) of
           Inl e \<Rightarrow> Inl e
         | Inr out \<Rightarrow>
             (case bias self of
                None \<Rightarrow> Inr out
              | Some b \<Rightarrow>
                  (let shadow_bias = shadow b
                   in add_bias out (Quantize shadow_bias 16))))"


section \<open>Hex packing\<close>




















section \<open>Properties of the quantizer\<close>

lemma torch_round_of_int: "torch_round (of_int k) = of_int k"
  by (simp add: torch_round_def)

lemma torch_round_numeral: "torch_round (numeral k) = numeral k"
  using torch_round_of_int[of "numeral k"] by simp

lemma torch_round_zero: "torch_round 0 = 0"
  using torch_round_of_int[of 0] by simp

lemma torch_round_is_int: "\<exists>k. torch_round x = of_int k"
  unfolding torch_round_def Let_def by (metis (full_types))

lemma clip_grid:
  "torch_clip (of_int k / 16384) (- (32767 / 16384)) (32767 / 16384)
     = of_int (min (max k (- 32767)) 32767) / 16384"
  unfolding torch_clip_def by (auto simp: min_def max_def)

lemma Quantize_elem_16_unfold:
  "Quantize_elem x 16
     = torch_clip (torch_round (x * 16384) / 16384) (- (32767 / 16384)) (32767 / 16384)"
  by (simp add: Quantize_elem_def power_int_def)

lemma Quantize_elem_16_grid:
  "\<exists>k. - 32767 \<le> k \<and> k \<le> 32767 \<and> Quantize_elem x 16 = of_int k / 16384"
proof -
  obtain j where j: "torch_round (x * 16384) = of_int j"
    using torch_round_is_int by blast
  have "Quantize_elem x 16 = of_int (min (max j (- 32767)) 32767) / 16384"
    unfolding Quantize_elem_16_unfold j clip_grid ..
  moreover have "- 32767 \<le> min (max j (- 32767)) 32767" "min (max j (- 32767)) 32767 \<le> 32767"
    by simp_all
  ultimately show ?thesis by blast
qed

lemma Quantize_elem_16_fix:
  assumes "- 32767 \<le> k" "k \<le> 32767"
  shows "Quantize_elem (of_int k / 16384) 16 = of_int k / 16384"
proof -
  have "of_int k / 16384 * 16384 = (of_int k :: real)" by simp
  then have "Quantize_elem (of_int k / 16384) 16
      = torch_clip (of_int k / 16384) (- (32767 / 16384)) (32767 / 16384)"
    unfolding Quantize_elem_16_unfold by (simp only: torch_round_of_int)
  also have "\<dots> = of_int (min (max k (- 32767)) 32767) / 16384"
    by (rule clip_grid)
  also have "min (max k (- 32767)) 32767 = k"
    using assms by simp
  finally show ?thesis .
qed

lemma Quantize_elem_idem: "Quantize_elem (Quantize_elem x 16) 16 = Quantize_elem x 16"
proof -
  obtain k where k: "- 32767 \<le> k" "k \<le> 32767" and q: "Quantize_elem x 16 = of_int k / 16384"
    using Quantize_elem_16_grid by blast
  show ?thesis unfolding q using k by (rule Quantize_elem_16_fix)
qed

text \<open>
  C3, as stated, fails away from the 16-bit width: at 8 bits the bound \<open>L\<close> of the claim is
  \<open>2^6 - 2^-6\<close>, which leaves the value 3 alone, and the code clips it at its literal
  1.99993896484375.
\<close>

theorem Quantize_bound_counterexample:
  "Quantize_elem 3 8 = 1.99993896484375 \<and> quantize_spec 3 8 = 3"
proof
  have n: "(2::real) powi (8 - 2) = 64"
    by (simp add: power_int_def)
  show "Quantize_elem 3 8 = 1.99993896484375"
    unfolding Quantize_elem_def Let_def n
    by (simp add: torch_round_numeral torch_clip_def)
  have L: "(2::real) powi (8 - 2) - 2 powi (- (8 - 2)) = 4095 / 64"
    by (simp add: power_int_def power_one_over)
  show "quantize_spec 3 8 = 3"
    unfolding quantize_spec_def Let_def L n
    by (simp add: torch_round_numeral torch_clip_def)
qed

text \<open>
  C3, amended: at the 16-bit width, the one the code uses (\<^verbatim>\<open>Binarize\<close>), \<^verbatim>\<open>Quantize\<close> is
  the round on the grid of step \<open>2^-14\<close> clipped at the literal bound
  \<open>1.99993896484375 = 2 - 2^-14\<close>; the result lies on that grid and within that bound.
\<close>

theorem Quantize_16_literal_bound:
  "Quantize_elem v 16
     = torch_clip (torch_round (v * 2 ^ 14) / 2 ^ 14) (- 1.99993896484375) 1.99993896484375
   \<and> (1.99993896484375 :: real) = 2 - 1 / 2 ^ 14
   \<and> (\<exists>k. - 32767 \<le> k \<and> k \<le> 32767 \<and> Quantize_elem v 16 = of_int k / 2 ^ 14)
   \<and> - 1.99993896484375 \<le> Quantize_elem v 16
   \<and> Quantize_elem v 16 \<le> 1.99993896484375
   \<and> data (Binarize t) = map (\<lambda>x. Quantize_elem x 16) (data t)
   \<and> shape (Binarize t) = shape t"
proof -
  have B: "(1.99993896484375 :: real) = 2 - 1 / 2 ^ 14"
    by simp
  have n: "(2::real) powi (16 - 2) = 2 ^ 14"
    by (simp add: power_int_def)
  have eq: "Quantize_elem v 16
     = torch_clip (torch_round (v * 2 ^ 14) / 2 ^ 14) (- 1.99993896484375) 1.99993896484375"
    unfolding Quantize_elem_def Let_def n ..
  have grid: "\<exists>k. - 32767 \<le> k \<and> k \<le> 32767 \<and> Quantize_elem v 16 = of_int k / 2 ^ 14"
    using Quantize_elem_16_grid[of v] by simp
  have lo: "- 1.99993896484375 \<le> Quantize_elem v 16"
    unfolding Quantize_elem_def Let_def torch_clip_def by (simp add: min_def max_def)
  have hi: "Quantize_elem v 16 \<le> 1.99993896484375"
    unfolding Quantize_elem_def Let_def torch_clip_def by (simp add: min_def max_def)
  have t: "data (Binarize t) = map (\<lambda>x. Quantize_elem x 16) (data t)"
    "shape (Binarize t) = shape t"
    by (simp_all add: Binarize_def Quantize_def tmap_def)
  from eq B grid lo hi t show ?thesis by blast
qed

text \<open>
  C4: 16-bit quantization is idempotent, on every real value and hence on every tensor
  (\<^verbatim>\<open>Binarize\<close> is \<^verbatim>\<open>Quantize(., 16)\<close>).
\<close>

theorem Quantize_idempotent_16:
  "Quantize_elem (Quantize_elem x 16) 16 = Quantize_elem x 16
   \<and> Quantize (Quantize t 16) 16 = Quantize t 16
   \<and> Binarize (Binarize t) = Binarize t"
  by (simp add: Quantize_elem_idem Quantize_def Binarize_def tmap_def)


section \<open>Properties of the surrogate estimator\<close>

lemma gaussian_normal_density: "gaussian x mu sigma = normal_density mu sigma x"
  by (simp add: gaussian_def normal_density_def mult.commute)

lemma temp_G: "temp ''G'' x = normal_density 0 (1 / 2) x"
proof -
  have "temp ''G'' x = gaussian x 0 lens"
    by (simp add: temp_def gaussian_def)
  then show ?thesis
    by (simp only: gaussian_normal_density lens_def) simp
qed

lemma temp_MG:
  "temp ''MG'' x = normal_density 0 (1 / 2) x * (1 + 0.15)
                   - normal_density (1 / 2) (6 * (1 / 2)) x * 0.15
                   - normal_density (- (1 / 2)) (6 * (1 / 2)) x * 0.15"
proof -
  have "temp ''MG'' x = gaussian x 0 lens * (1 + 0.15)
                   - gaussian x lens (6 * lens) * 0.15
                   - gaussian x (- lens) (6 * lens) * 0.15"
    unfolding temp_def Let_def by simp
  then show ?thesis
    by (simp only: gaussian_normal_density lens_def) simp
qed

lemma temp_kernel_spec: "temp mode x = kernel_spec mode x"
proof -
  consider "mode = ''G''" | "mode = ''MG''"
    | "mode \<noteq> ''G''" "mode \<noteq> ''MG''"
    by blast
  then show ?thesis
  proof cases
    case 1
    have "kernel_spec ''G'' x = normal_density 0 (1 / 2) x"
      unfolding kernel_spec_def by simp
    with 1 show ?thesis by (simp only: temp_G)
  next
    case 2
    then have "kernel_spec mode x = normal_density 0 (1 / 2) x * (1 + 0.15)
                   - normal_density (1 / 2) (6 * (1 / 2)) x * 0.15
                   - normal_density (- (1 / 2)) (6 * (1 / 2)) x * 0.15"
      unfolding kernel_spec_def by simp
    with 2 show ?thesis by (simp only: temp_MG)
  next
    case 3
    then show ?thesis
      unfolding temp_def kernel_spec_def Let_def relu_def by simp
  qed
qed

text \<open>
  C1: for a saved input \<open>x\<close> and an upstream gradient \<open>g\<close> of its shape, the backward pass
  returns, element by element, \<open>g * kernel(x) * 0.5\<close>, with the kernel of the configured
  mode as the specification lists them; the code's values of \<^verbatim>\<open>temp\<close> are those kernels.
\<close>

theorem AcFun_adp_backward_kernel:
  assumes "shape g = shape x"
  shows "AcFun_adp_backward mode x g
           = Inr \<lparr>shape = shape x,
                  data = map2 (\<lambda>gv xv. gv * kernel_spec mode xv * 0.5) (data g) (data x)\<rparr>"
proof -
  have "map2 (\<lambda>a b. a * b) (data g) (map (temp mode) (data x))
          = map2 (\<lambda>gv xv. gv * kernel_spec mode xv) (data g) (data x)"
    by (simp add: zip_map2 temp_kernel_spec case_prod_unfold)
  then show ?thesis
    using assms
    by (simp add: AcFun_adp_backward_def tmul_def tmap_def gamma_def case_prod_unfold)
qed

theorem AcFun_adp_backward_kernel_witness:
  "shape \<lparr>shape = [2], data = [2, 3]\<rparr> = shape \<lparr>shape = [2], data = [1 / 2, 4]\<rparr>
   \<and> AcFun_adp_backward ''linear'' \<lparr>shape = [2], data = [1 / 2, 4]\<rparr> \<lparr>shape = [2], data = [2, 3]\<rparr>
       = Inr \<lparr>shape = [2], data = [1 / 2, 0]\<rparr>"
  using AcFun_adp_backward_kernel
          [of "\<lparr>shape = [2], data = [2, 3]\<rparr>" "\<lparr>shape = [2], data = [1 / 2, 4]\<rparr>" "''linear''"]
  by (simp add: kernel_spec_def)

text \<open>
  C6, as stated, fails: under a mode that is none of the five names the backward pass
  raises nothing and returns a gradient, through the final \<^verbatim>\<open>else\<close> branch.
\<close>

theorem AcFun_adp_backward_unknown_mode_counterexample:
  "AcFun_adp_backward ''foo'' \<lparr>shape = [1], data = [0]\<rparr> \<lparr>shape = [1], data = [1]\<rparr>
     = Inr \<lparr>shape = [1], data = [1 / 2]\<rparr>"
  by (simp add: AcFun_adp_backward_def tmul_def tmap_def temp_def gamma_def)

text \<open>
  C6, amended: under a mode outside the five names the backward pass falls back to the
  kernel \<open>exp (- |x|)\<close> and returns the gradient \<open>g * exp (- |x|) * 0.5\<close>; it does not fail.
\<close>

theorem AcFun_adp_backward_fallback:
  assumes "mode \<notin> {''G'', ''MG'', ''linear'', ''slayer'', ''sigmoid''}"
    and "shape g = shape x"
  shows "AcFun_adp_backward mode x g
           = Inr \<lparr>shape = shape x,
                  data = map2 (\<lambda>gv xv. gv * exp (- \<bar>xv\<bar>) * 0.5) (data g) (data x)\<rparr>"
proof -
  have t: "temp mode = (\<lambda>v. exp (- \<bar>v\<bar>))"
    using assms(1) by (auto simp: temp_def)
  have "map2 (\<lambda>a b. a * b) (data g) (map (\<lambda>v. exp (- \<bar>v\<bar>)) (data x))
          = map2 (\<lambda>gv xv. gv * exp (- \<bar>xv\<bar>)) (data g) (data x)"
    by (simp add: zip_map2 case_prod_unfold)
  then show ?thesis
    using assms(2)
    by (simp add: AcFun_adp_backward_def tmul_def tmap_def gamma_def t case_prod_unfold)
qed

theorem AcFun_adp_backward_fallback_witness:
  "''exp'' \<notin> {''G'', ''MG'', ''linear'', ''slayer'', ''sigmoid''}
   \<and> shape \<lparr>shape = [2], data = [4, 6]\<rparr> = shape \<lparr>shape = [2], data = [0, 0]\<rparr>
   \<and> AcFun_adp_backward ''exp'' \<lparr>shape = [2], data = [0, 0]\<rparr> \<lparr>shape = [2], data = [4, 6]\<rparr>
       = Inr \<lparr>shape = [2], data = [2, 3]\<rparr>"
  using AcFun_adp_backward_fallback
          [of "''exp''" "\<lparr>shape = [2], data = [4, 6]\<rparr>" "\<lparr>shape = [2], data = [0, 0]\<rparr>"]
  by simp

text \<open>
  C7: the forward pass saves its input and returns a tensor of the input's shape whose
  elements are 1 where the input is above 0 and 0 elsewhere, so always 0 or 1; an input
  element equal to 0 gives 0.
\<close>

theorem AcFun_adp_forward_binary:
  "fst (AcFun_adp_forward x) = x
   \<and> shape (snd (AcFun_adp_forward x)) = shape x
   \<and> data (snd (AcFun_adp_forward x)) = map (\<lambda>v. if 0 < v then 1 else 0) (data x)
   \<and> set (data (snd (AcFun_adp_forward x))) \<subseteq> {0, 1}
   \<and> snd (AcFun_adp_forward \<lparr>shape = [3], data = [- 1, 0, 2]\<rparr>) = \<lparr>shape = [3], data = [0, 0, 1]\<rparr>"
  by (auto simp: AcFun_adp_forward_def tmap_def)


section \<open>Properties of the LIF update\<close>

lemma LIF_mem_update_same_shape:
  assumes "shape mem = shape inputs" "shape spike = shape inputs"
    and "length (data mem) = length (data inputs)" "length (data spike) = length (data inputs)"
  shows "LIF_mem_update inputs mem spike
           = Inr (\<lparr>shape = shape inputs,
                   data = map (\<lambda>i. lif_mem_spec (data inputs ! i) (data mem ! i) (data spike ! i))
                            [0..<length (data inputs)]\<rparr>,
                  \<lparr>shape = shape inputs,
                   data = map (\<lambda>i. lif_spike_spec
                                 (lif_mem_spec (data inputs ! i) (data mem ! i) (data spike ! i)))
                            [0..<length (data inputs)]\<rparr>)"
proof -
  let ?q = "\<lambda>v::real. torch_clip (torch_round (v * 2 ^ 14) / 2 ^ 14)
                         (- 14.99993896484375) 14.99993896484375"
  let ?m1 = "map2 (\<lambda>x y. x * y) (map (\<lambda>v. v * decay) (data mem)) (map (\<lambda>s. 1 - s) (data spike))"
  let ?m4 = "map ?q (map2 (\<lambda>x y. x + y) (map ?q ?m1) (data inputs))"
  have run: "LIF_mem_update inputs mem spike
               = Inr (\<lparr>shape = shape inputs, data = ?m4\<rparr>,
                      \<lparr>shape = shape inputs,
                       data = map (\<lambda>v. if 0 < v then 1 else 0) (map (\<lambda>v. v - thresh) ?m4)\<rparr>)"
    using assms(1,2)
    by (simp add: LIF_mem_update_def tmul_def tadd_def tmap_def act_fun_adp_def
        AcFun_adp_forward_def)
  have m4: "?m4 = map (\<lambda>i. lif_mem_spec (data inputs ! i) (data mem ! i) (data spike ! i))
                    [0..<length (data inputs)]"
    using assms(3,4)
    by (intro nth_equalityI) (simp_all add: lif_mem_spec_def decay_def)
  have sp: "map (\<lambda>v. if 0 < v then 1 else 0) (map (\<lambda>v. v - thresh) ?m4)
              = map (\<lambda>i. lif_spike_spec
                            (lif_mem_spec (data inputs ! i) (data mem ! i) (data spike ! i)))
                    [0..<length (data inputs)]"
    unfolding m4 by (simp add: lif_spike_spec_def thresh_def)
  show ?thesis unfolding run m4 sp[unfolded m4] ..
qed

lemma LIF_mem_update_exact_arith:
  "LIF_mem_update_in exact_arith (as_tensor_of inputs) (as_tensor_of mem) (as_tensor_of spike)
     = (case LIF_mem_update inputs mem spike of
          Inl e \<Rightarrow> Inl e
        | Inr (m, s) \<Rightarrow> Inr (as_tensor_of m, as_tensor_of s))"
  by (simp add: LIF_mem_update_in_def LIF_mem_update_def exact_arith_def as_tensor_of_def
      emap_def emap2_def tmap_def tmul_def tadd_def act_fun_adp_in_def act_fun_adp_def
      AcFun_adp_forward_def Let_def)





section \<open>Properties of the encoding pass\<close>

lemma lif_mem_spec_zero: "lif_mem_spec v 0 0 = encode_mem_spec v"
  by (simp add: lif_mem_spec_def encode_mem_spec_def torch_round_zero torch_clip_def)

lemma lif_spike_spec_encode: "lif_spike_spec (encode_mem_spec v) = encode_spike_spec v"
  by (simp add: lif_spike_spec_def encode_spike_spec_def)

lemma Encoding_elementwise:
  assumes "shape x = [B, T, F]" "wf_tensor x"
  shows "Encoding x = Inr (tmap encode_mem_spec x, tmap encode_spike_spec x)"
proof -
  have len: "length (data x) = B * T * F"
    using assms by (simp add: wf_tensor_def)
  have z: "zeros [B, T, F] = \<lparr>shape = shape x, data = replicate (length (data x)) 0\<rparr>"
    using assms(1) len by (simp add: zeros_def)
  have enc: "Encoding x = LIF_mem_update x (zeros [B, T, F]) (zeros [B, T, F])"
    using assms(1) by (simp add: Encoding_def size_dim_def Let_def)
  have "LIF_mem_update x (zeros [B, T, F]) (zeros [B, T, F])
          = Inr (\<lparr>shape = shape x,
                  data = map (\<lambda>i. lif_mem_spec (data x ! i) (data (zeros [B, T, F]) ! i)
                                      (data (zeros [B, T, F]) ! i)) [0..<length (data x)]\<rparr>,
                 \<lparr>shape = shape x,
                  data = map (\<lambda>i. lif_spike_spec
                                (lif_mem_spec (data x ! i) (data (zeros [B, T, F]) ! i)
                                      (data (zeros [B, T, F]) ! i))) [0..<length (data x)]\<rparr>)"
    by (rule LIF_mem_update_same_shape) (simp_all add: z)
  also have "map (\<lambda>i. lif_mem_spec (data x ! i) (data (zeros [B, T, F]) ! i)
                                      (data (zeros [B, T, F]) ! i)) [0..<length (data x)]
               = map encode_mem_spec (data x)"
    by (intro nth_equalityI) (simp_all add: z lif_mem_spec_zero)
  also have "map (\<lambda>i. lif_spike_spec
                                (lif_mem_spec (data x ! i) (data (zeros [B, T, F]) ! i)
                                      (data (zeros [B, T, F]) ! i))) [0..<length (data x)]
               = map encode_spike_spec (data x)"
    by (intro nth_equalityI) (simp_all add: z lif_mem_spec_zero lif_spike_spec_encode)
  finally show ?thesis
    unfolding enc by (simp add: tmap_def)
qed

lemma select_time_tmap:
  assumes "select_time x t = Inr xt"
  shows "select_time (tmap f x) t = Inr (tmap f xt)"
proof -
  from assms obtain B T F where sh: "shape x = [B, T, F]" and t: "t < T"
    by (auto simp: select_time_def split: list.splits if_splits)
  have xt: "xt = \<lparr>shape = [B, F],
                  data = concat (map (\<lambda>b. take F (drop ((b * T + t) * F) (data x))) [0..<B])\<rparr>"
    using assms sh t by (simp add: select_time_def)
  show ?thesis
    using sh t
    by (simp add: select_time_def tmap_def xt map_concat take_map drop_map comp_def)
qed

lemma OLSGRU_forward_Encoding:
  assumes "Encoding x = Inr (m, s)" "shape x = [B, T, F]"
  shows "OLSGRU_forward hidden_size x hidden_spike = Inr s"
proof -
  have "LIF_mem_update x (zeros [B, T, F]) (zeros [B, T, F]) = Inr (m, s)"
    using assms by (simp add: Encoding_def size_dim_def Let_def)
  then show ?thesis
    using assms(2) by (cases hidden_spike) (simp_all add: OLSGRU_forward_def size_dim_def Let_def)
qed

lemma encode_mem_spec_eval:
  "encode_mem_spec 1 = 1" "encode_mem_spec (1 / 2) = 1 / 2"
  "encode_mem_spec (7 / 8) = 7 / 8" "encode_mem_spec 2 = 2"
  by (simp_all add: encode_mem_spec_def torch_clip_def torch_round_numeral)

text \<open>
  C10: on a 3-dimensional input the encoding pass is one LIF update of the whole tensor
  from zero membrane and zero spikes; its spike tensor is, element by element, 1 where the
  input put on the membrane grid is above 0.875 and 0 elsewhere, so the slice of encoded
  spikes at time \<open>t\<close> is that function of the input's slice at time \<open>t\<close> alone. The
  encoding-only cell returns that spike tensor.
\<close>

theorem Encoding_per_timestep:
  assumes "shape x = [B, T, F]" "wf_tensor x" "t < T"
  shows "Encoding x = LIF_mem_update x (zeros [B, T, F]) (zeros [B, T, F])
         \<and> Encoding x = Inr (tmap encode_mem_spec x, tmap encode_spike_spec x)
         \<and> select_time x t
             = Inr \<lparr>shape = [B, F],
                    data = concat (map (\<lambda>b. take F (drop ((b * T + t) * F) (data x))) [0..<B])\<rparr>
         \<and> select_time (tmap encode_spike_spec x) t
             = Inr \<lparr>shape = [B, F],
                    data = map encode_spike_spec
                      (concat (map (\<lambda>b. take F (drop ((b * T + t) * F) (data x))) [0..<B]))\<rparr>
         \<and> OLSGRU_forward hidden_size x hidden_spike = Inr (tmap encode_spike_spec x)"
proof -
  have enc0: "Encoding x = LIF_mem_update x (zeros [B, T, F]) (zeros [B, T, F])"
    using assms(1) by (simp add: Encoding_def size_dim_def Let_def)
  have enc: "Encoding x = Inr (tmap encode_mem_spec x, tmap encode_spike_spec x)"
    using assms(1,2) by (rule Encoding_elementwise)
  have sel: "select_time x t
             = Inr \<lparr>shape = [B, F],
                    data = concat (map (\<lambda>b. take F (drop ((b * T + t) * F) (data x))) [0..<B])\<rparr>"
    using assms(1,3) by (simp add: select_time_def)
  have "select_time (tmap encode_spike_spec x) t
             = Inr (tmap encode_spike_spec \<lparr>shape = [B, F],
                    data = concat (map (\<lambda>b. take F (drop ((b * T + t) * F) (data x))) [0..<B])\<rparr>)"
    using sel by (rule select_time_tmap)
  then have sel': "select_time (tmap encode_spike_spec x) t
             = Inr \<lparr>shape = [B, F],
                    data = map encode_spike_spec
                      (concat (map (\<lambda>b. take F (drop ((b * T + t) * F) (data x))) [0..<B]))\<rparr>"
    by (simp add: tmap_def)
  have ols: "OLSGRU_forward hidden_size x hidden_spike = Inr (tmap encode_spike_spec x)"
    using enc assms(1) by (rule OLSGRU_forward_Encoding)
  from enc0 enc sel sel' ols show ?thesis by blast
qed

theorem Encoding_per_timestep_witness:
  "shape \<lparr>shape = [1, 2, 2], data = [1, 1 / 2, 7 / 8, 2]\<rparr> = [1, 2, 2]
   \<and> wf_tensor \<lparr>shape = [1, 2, 2], data = [1, 1 / 2, 7 / 8, 2]\<rparr>
   \<and> (1::nat) < 2
   \<and> Encoding \<lparr>shape = [1, 2, 2], data = [1, 1 / 2, 7 / 8, 2]\<rparr>
       = Inr (\<lparr>shape = [1, 2, 2], data = [1, 1 / 2, 7 / 8, 2]\<rparr>,
              \<lparr>shape = [1, 2, 2], data = [1, 0, 0, 1]\<rparr>)
   \<and> select_time \<lparr>shape = [1, 2, 2], data = [1, 1 / 2, 7 / 8, 2]\<rparr> 1
       = Inr \<lparr>shape = [1, 2], data = [7 / 8, 2]\<rparr>
   \<and> select_time \<lparr>shape = [1, 2, 2], data = [1, 0, 0, 1]\<rparr> 1
       = Inr \<lparr>shape = [1, 2], data = [0, 1]\<rparr>
   \<and> OLSGRU_forward 64 \<lparr>shape = [1, 2, 2], data = [1, 1 / 2, 7 / 8, 2]\<rparr> None
       = Inr \<lparr>shape = [1, 2, 2], data = [1, 0, 0, 1]\<rparr>"
proof -
  let ?x = "\<lparr>shape = [1, 2, 2], data = [1, 1 / 2, 7 / 8, 2]\<rparr>"
  have h: "shape ?x = [1, 2, 2]" "wf_tensor ?x" "(1::nat) < 2"
    by (simp_all add: wf_tensor_def)
  have ev: "tmap encode_mem_spec ?x = ?x"
    "tmap encode_spike_spec ?x = \<lparr>shape = [1, 2, 2], data = [1, 0, 0, 1]\<rparr>"
    by (simp_all add: tmap_def encode_spike_spec_def encode_mem_spec_eval)
  note th = Encoding_per_timestep [OF h, of 64 None, unfolded ev]
  have a: "Encoding ?x = Inr (?x, \<lparr>shape = [1, 2, 2], data = [1, 0, 0, 1]\<rparr>)"
    using th by blast
  have d: "OLSGRU_forward 64 ?x None = Inr \<lparr>shape = [1, 2, 2], data = [1, 0, 0, 1]\<rparr>"
    using th by blast
  have b: "select_time ?x 1 = Inr \<lparr>shape = [1, 2], data = [7 / 8, 2]\<rparr>"
    by (simp add: select_time_def)
  have c: "select_time \<lparr>shape = [1, 2, 2], data = [1, 0, 0, 1]\<rparr> 1
             = Inr \<lparr>shape = [1, 2], data = [0, 1]\<rparr>"
    by (simp add: select_time_def)
  from h a b c d show ?thesis by blast
qed


section \<open>Properties of the quantized linear layer\<close>

lemma forward_unfold:
  "BinarizeLinear_forward self input =
     (case F_linear input (Binarize (shadow (weight self))) of
        Inl e \<Rightarrow> (self\<lparr>weight := \<lparr>pdata = Binarize (shadow (weight self)),
                                    org = Some (shadow (weight self))\<rparr>\<rparr>, Inl e)
      | Inr out \<Rightarrow>
          (case bias self of
             None \<Rightarrow> (self\<lparr>weight := \<lparr>pdata = Binarize (shadow (weight self)),
                                          org = Some (shadow (weight self))\<rparr>\<rparr>, Inr out)
           | Some b \<Rightarrow>
               (self\<lparr>weight := \<lparr>pdata = Binarize (shadow (weight self)),
                                  org = Some (shadow (weight self))\<rparr>,
                      bias := Some \<lparr>pdata = pdata b, org = Some (shadow b)\<rparr>\<rparr>,
                add_bias out (pdata b))))"
proof -
  obtain wd wo where w: "weight self = \<lparr>pdata = wd, org = wo\<rparr>"
    by (cases "weight self") simp
  show ?thesis
  proof (cases "bias self")
    case None
    then show ?thesis
      using w by (cases wo; cases "F_linear input (Binarize (shadow (weight self)))")
        (simp_all add: BinarizeLinear_forward_def shadow_def)
  next
    case (Some b)
    obtain bd bo where b: "b = \<lparr>pdata = bd, org = bo\<rparr>"
      by (cases b) simp
    show ?thesis
      using w Some b by (cases wo; cases bo; cases "F_linear input (Binarize (shadow (weight self)))")
        (simp_all add: BinarizeLinear_forward_def shadow_def)
  qed
qed

lemma forward_fixpoint:
  "BinarizeLinear_forward (fst (BinarizeLinear_forward self input)) input
     = BinarizeLinear_forward self input"
proof (cases "F_linear input (Binarize (shadow (weight self)))")
  case (Inl e)
  then show ?thesis
    by (simp add: forward_unfold shadow_def)
next
  case (Inr out)
  then show ?thesis
    by (cases "bias self") (simp_all add: forward_unfold shadow_def)
qed

lemma forward_weight_org:
  "org (weight (fst (BinarizeLinear_forward self input))) = Some (shadow (weight self))"
  by (cases "F_linear input (Binarize (shadow (weight self)))"; cases "bias self")
     (simp_all add: forward_unfold)

lemma forward_bias_org:
  assumes "bias self = Some b" "org b = Some t"
  shows "bias (fst (BinarizeLinear_forward self input)) = Some b"
proof -
  have "b = \<lparr>pdata = pdata b, org = Some t\<rparr>"
    using assms(2) by (cases b) simp
  then show ?thesis
    using assms
    by (cases "F_linear input (Binarize (shadow (weight self)))")
       (simp_all add: forward_unfold shadow_def)
qed

text \<open>
  C8: a second forward call on the same input, with nothing in between, returns what the
  first returned and leaves the layer as the first call left it; a shadow that exists
  before a call (\<^verbatim>\<open>weight.org\<close>, \<^verbatim>\<open>bias.org\<close>) is the same after it, and after any call the
  weight has its shadow.
\<close>

theorem BinarizeLinear_forward_twice:
  "snd (BinarizeLinear_forward (fst (BinarizeLinear_forward self input)) input)
     = snd (BinarizeLinear_forward self input)
   \<and> fst (BinarizeLinear_forward (fst (BinarizeLinear_forward self input)) input)
     = fst (BinarizeLinear_forward self input)
   \<and> (\<forall>t. org (weight self) = Some t
          \<longrightarrow> org (weight (fst (BinarizeLinear_forward self input))) = Some t)
   \<and> (\<forall>b t. bias self = Some b \<and> org b = Some t
          \<longrightarrow> bias (fst (BinarizeLinear_forward self input)) = Some b)
   \<and> org (weight (fst (BinarizeLinear_forward self input))) \<noteq> None"
  by (simp add: forward_fixpoint forward_weight_org forward_bias_org shadow_def)

lemma Quantize_elem_eval:
  "Quantize_elem 1 16 = 1" "Quantize_elem 3 16 = 32767 / 16384"
  by (simp_all add: Quantize_elem_16_unfold torch_round_numeral torch_clip_def)

lemma Binarize_eval:
  "Binarize \<lparr>shape = [1, 2], data = [1, 3]\<rparr> = \<lparr>shape = [1, 2], data = [1, 32767 / 16384]\<rparr>"
  "Binarize \<lparr>shape = [1], data = [3]\<rparr> = \<lparr>shape = [1], data = [32767 / 16384]\<rparr>"
  by (simp_all add: Binarize_def Quantize_def tmap_def Quantize_elem_eval)

lemma F_linear_eval:
  "F_linear \<lparr>shape = [1, 2], data = [1, 1]\<rparr> \<lparr>shape = [1, 2], data = [1, 32767 / 16384]\<rparr>
     = Inr \<lparr>shape = [1, 1], data = [49151 / 16384]\<rparr>"
  by (simp add: F_linear_def row_def dot_def)

lemma add_bias_eval:
  "add_bias \<lparr>shape = [1, 1], data = [49151 / 16384]\<rparr> \<lparr>shape = [1], data = [3]\<rparr>
     = Inr \<lparr>shape = [1, 1], data = [98303 / 16384]\<rparr>"
  "add_bias \<lparr>shape = [1, 1], data = [49151 / 16384]\<rparr> \<lparr>shape = [1], data = [32767 / 16384]\<rparr>
     = Inr \<lparr>shape = [1, 1], data = [81918 / 16384]\<rparr>"
  by (simp_all add: add_bias_def row_def)

theorem BinarizeLinear_forward_twice_witness:
  "org (weight \<lparr>weight = \<lparr>pdata = \<lparr>shape = [1, 2], data = [7, 7]\<rparr>,
                            org = Some \<lparr>shape = [1, 2], data = [1, 3]\<rparr>\<rparr>,
                 bias = Some \<lparr>pdata = \<lparr>shape = [1], data = [3]\<rparr>,
                              org = Some \<lparr>shape = [1], data = [0]\<rparr>\<rparr>\<rparr>)
     = Some \<lparr>shape = [1, 2], data = [1, 3]\<rparr>
   \<and> org (weight (fst (BinarizeLinear_forward
          \<lparr>weight = \<lparr>pdata = \<lparr>shape = [1, 2], data = [7, 7]\<rparr>,
                      org = Some \<lparr>shape = [1, 2], data = [1, 3]\<rparr>\<rparr>,
            bias = Some \<lparr>pdata = \<lparr>shape = [1], data = [3]\<rparr>,
                         org = Some \<lparr>shape = [1], data = [0]\<rparr>\<rparr>\<rparr>
          \<lparr>shape = [1, 2], data = [1, 1]\<rparr>)))
     = Some \<lparr>shape = [1, 2], data = [1, 3]\<rparr>
   \<and> bias (fst (BinarizeLinear_forward
          \<lparr>weight = \<lparr>pdata = \<lparr>shape = [1, 2], data = [7, 7]\<rparr>,
                      org = Some \<lparr>shape = [1, 2], data = [1, 3]\<rparr>\<rparr>,
            bias = Some \<lparr>pdata = \<lparr>shape = [1], data = [3]\<rparr>,
                         org = Some \<lparr>shape = [1], data = [0]\<rparr>\<rparr>\<rparr>
          \<lparr>shape = [1, 2], data = [1, 1]\<rparr>))
     = Some \<lparr>pdata = \<lparr>shape = [1], data = [3]\<rparr>, org = Some \<lparr>shape = [1], data = [0]\<rparr>\<rparr>
   \<and> snd (BinarizeLinear_forward (fst (BinarizeLinear_forward
          \<lparr>weight = \<lparr>pdata = \<lparr>shape = [1, 2], data = [7, 7]\<rparr>,
                      org = Some \<lparr>shape = [1, 2], data = [1, 3]\<rparr>\<rparr>,
            bias = Some \<lparr>pdata = \<lparr>shape = [1], data = [3]\<rparr>,
                         org = Some \<lparr>shape = [1], data = [0]\<rparr>\<rparr>\<rparr>
          \<lparr>shape = [1, 2], data = [1, 1]\<rparr>)) \<lparr>shape = [1, 2], data = [1, 1]\<rparr>)
     = Inr \<lparr>shape = [1, 1], data = [98303 / 16384]\<rparr>"
proof -
  let ?W0 = "\<lparr>shape = [1, 2], data = [1, 3]\<rparr>"
  let ?b = "\<lparr>pdata = \<lparr>shape = [1], data = [3]\<rparr>, org = Some \<lparr>shape = [1], data = [0]\<rparr>\<rparr>"
  let ?L = "\<lparr>weight = \<lparr>pdata = \<lparr>shape = [1, 2], data = [7, 7]\<rparr>, org = Some ?W0\<rparr>,
             bias = Some ?b\<rparr>"
  let ?X = "\<lparr>shape = [1, 2], data = [1, 1]\<rparr>"
  note th = BinarizeLinear_forward_twice [of ?L ?X]
  have h1: "org (weight ?L) = Some ?W0"
    by simp
  have h2: "bias ?L = Some ?b \<and> org ?b = Some \<lparr>shape = [1], data = [0]\<rparr>"
    by simp
  have first: "snd (BinarizeLinear_forward ?L ?X) = Inr \<lparr>shape = [1, 1], data = [98303 / 16384]\<rparr>"
    by (simp only: forward_unfold shadow_def parameter.simps BinarizeLinear.simps option.case
        sum.case snd_conv Binarize_eval F_linear_eval add_bias_eval)
  have a: "org (weight (fst (BinarizeLinear_forward ?L ?X))) = Some ?W0"
    using th h1 by blast
  have b: "bias (fst (BinarizeLinear_forward ?L ?X)) = Some ?b"
    using th h2 by blast
  have c: "snd (BinarizeLinear_forward (fst (BinarizeLinear_forward ?L ?X)) ?X)
             = Inr \<lparr>shape = [1, 1], data = [98303 / 16384]\<rparr>"
    using th first by simp
  from h1 a b c show ?thesis by blast
qed

text \<open>
  C5, as stated, fails: with weight \<open>[1, 3]\<close>, bias \<open>3\<close> and input \<open>[1, 1]\<close> the layer returns
  \<open>1 + 1.99993896484375 + 3\<close>, the live bias added as it is, where the claimed discipline
  would add the quantized bias \<open>1.99993896484375\<close>.
\<close>

theorem BinarizeLinear_bias_counterexample:
  "snd (BinarizeLinear_forward
          \<lparr>weight = \<lparr>pdata = \<lparr>shape = [1, 2], data = [1, 3]\<rparr>, org = None\<rparr>,
            bias = Some \<lparr>pdata = \<lparr>shape = [1], data = [3]\<rparr>, org = None\<rparr>\<rparr>
          \<lparr>shape = [1, 2], data = [1, 1]\<rparr>)
     = Inr \<lparr>shape = [1, 1], data = [98303 / 16384]\<rparr>
   \<and> forward_output_spec
          \<lparr>weight = \<lparr>pdata = \<lparr>shape = [1, 2], data = [1, 3]\<rparr>, org = None\<rparr>,
            bias = Some \<lparr>pdata = \<lparr>shape = [1], data = [3]\<rparr>, org = None\<rparr>\<rparr>
          \<lparr>shape = [1, 2], data = [1, 1]\<rparr>
     = Inr \<lparr>shape = [1, 1], data = [81918 / 16384]\<rparr>"
  by (simp only: forward_unfold forward_output_spec_def Let_def shadow_def parameter.simps
      BinarizeLinear.simps option.case sum.case snd_conv Binarize_eval
      Binarize_def[symmetric] F_linear_eval add_bias_eval simp_thms)

text \<open>
  C5, amended: when the layer has a bias and the product with the quantized shadow weight
  succeeds, the forward call gives the bias its shadow if it has none and leaves an
  existing one alone, and adds the live bias value, as it is, to the product: the bias is
  not quantized and its shadow is not read.
\<close>

theorem BinarizeLinear_forward_bias_live:
  assumes "bias self = Some b"
    and "F_linear input (Quantize (shadow (weight self)) 16) = Inr out"
  shows "snd (BinarizeLinear_forward self input) = add_bias out (pdata b)
         \<and> bias (fst (BinarizeLinear_forward self input))
             = Some \<lparr>pdata = pdata b, org = Some (shadow b)\<rparr>
         \<and> weight (fst (BinarizeLinear_forward self input))
             = \<lparr>pdata = Quantize (shadow (weight self)) 16, org = Some (shadow (weight self))\<rparr>"
  using assms by (simp add: forward_unfold Binarize_def)

theorem BinarizeLinear_forward_bias_live_witness:
  "bias \<lparr>weight = \<lparr>pdata = \<lparr>shape = [1, 2], data = [1, 3]\<rparr>, org = None\<rparr>,
          bias = Some \<lparr>pdata = \<lparr>shape = [1], data = [3]\<rparr>, org = None\<rparr>\<rparr>
     = Some \<lparr>pdata = \<lparr>shape = [1], data = [3]\<rparr>, org = None\<rparr>
   \<and> F_linear \<lparr>shape = [1, 2], data = [1, 1]\<rparr>
        (Quantize (shadow \<lparr>pdata = \<lparr>shape = [1, 2], data = [1, 3]\<rparr>, org = None\<rparr>) 16)
     = Inr \<lparr>shape = [1, 1], data = [49151 / 16384]\<rparr>
   \<and> snd (BinarizeLinear_forward
        \<lparr>weight = \<lparr>pdata = \<lparr>shape = [1, 2], data = [1, 3]\<rparr>, org = None\<rparr>,
          bias = Some \<lparr>pdata = \<lparr>shape = [1], data = [3]\<rparr>, org = None\<rparr>\<rparr>
        \<lparr>shape = [1, 2], data = [1, 1]\<rparr>)
     = Inr \<lparr>shape = [1, 1], data = [98303 / 16384]\<rparr>
   \<and> bias (fst (BinarizeLinear_forward
        \<lparr>weight = \<lparr>pdata = \<lparr>shape = [1, 2], data = [1, 3]\<rparr>, org = None\<rparr>,
          bias = Some \<lparr>pdata = \<lparr>shape = [1], data = [3]\<rparr>, org = None\<rparr>\<rparr>
        \<lparr>shape = [1, 2], data = [1, 1]\<rparr>))
     = Some \<lparr>pdata = \<lparr>shape = [1], data = [3]\<rparr>, org = Some \<lparr>shape = [1], data = [3]\<rparr>\<rparr>"
proof -
  let ?b = "\<lparr>pdata = \<lparr>shape = [1], data = [3]\<rparr>, org = None\<rparr>"
  let ?L = "\<lparr>weight = \<lparr>pdata = \<lparr>shape = [1, 2], data = [1, 3]\<rparr>, org = None\<rparr>,
             bias = Some ?b\<rparr>"
  let ?X = "\<lparr>shape = [1, 2], data = [1, 1]\<rparr>"
  have h1: "bias ?L = Some ?b"
    by simp
  have h2: "F_linear ?X (Quantize (shadow (weight ?L)) 16)
              = Inr \<lparr>shape = [1, 1], data = [49151 / 16384]\<rparr>"
    by (simp only: shadow_def parameter.simps BinarizeLinear.simps option.case
        Binarize_eval Binarize_def[symmetric] F_linear_eval)
  note th = BinarizeLinear_forward_bias_live [OF h1 h2]
  have r1: "snd (BinarizeLinear_forward ?L ?X) = Inr \<lparr>shape = [1, 1], data = [98303 / 16384]\<rparr>"
    using th by (simp only: parameter.simps add_bias_eval)
  have r2: "bias (fst (BinarizeLinear_forward ?L ?X))
              = Some \<lparr>pdata = \<lparr>shape = [1], data = [3]\<rparr>, org = Some \<lparr>shape = [1], data = [3]\<rparr>\<rparr>"
    using th by (simp only: shadow_def parameter.simps option.case)
  have h2': "F_linear ?X (Quantize (shadow \<lparr>pdata = \<lparr>shape = [1, 2], data = [1, 3]\<rparr>, org = None\<rparr>) 16)
              = Inr \<lparr>shape = [1, 1], data = [49151 / 16384]\<rparr>"
    using h2 by (simp only: BinarizeLinear.simps)
  from h1 h2' r1 r2 show ?thesis by (intro conjI)
qed


section \<open>Properties of the hex packing\<close>














end
